theory Spec2Isabelle
  imports Main
begin

section \<open>Shared data: JavaScript values, errors, events\<close>

text \<open>
  Snapshots, default states and token claims are JavaScript values. Only the
  distinction the code itself makes is kept: which values are truthy
  (\<^verbatim>\<open>if (options.defaultState)\<close>), and the keys of an object.
\<close>

datatype jsval = JNull | JBool bool | JNum int | JStr string | JObj "(string \<times> jsval) list"

fun truthy :: "jsval \<Rightarrow> bool" where
  "truthy JNull = False"
| "truthy (JBool b) = b"
| "truthy (JNum n) = (n \<noteq> 0)"
| "truthy (JStr s) = (s \<noteq> [])"
| "truthy (JObj kvs) = True"

text \<open>A thrown \<^verbatim>\<open>Error\<close> is its message; \<^verbatim>\<open>TypeError\<close> is kept apart.\<close>

datatype error = Error string | TypeError string

fun message_of :: "error \<Rightarrow> string" where
  "message_of (Error m) = m"
| "message_of (TypeError m) = m"

text \<open>
  Events go to one of three emitters: the peer's own (\<^verbatim>\<open>this.events\<close>), the
  server's (\<^verbatim>\<open>this._helios.events\<close>) or the proxy manager's own
  (\<^verbatim>\<open>this._events\<close>). An event is its name and the one datum of its payload the
  properties below talk about (a reason, a namespace, a request id or an error
  message).
\<close>

datatype sink = Local | Server | Proxy

datatype event = Event sink string string

section \<open>Peer lifecycle: \<^verbatim>\<open>core/starling.js\<close>\<close>

text \<open>
  The fields of \<^verbatim>\<open>Starling\<close> that \<^verbatim>\<open>link\<close>, \<^verbatim>\<open>unlink\<close> and \<^verbatim>\<open>close\<close> read or
  write. \<^verbatim>\<open>disconnectionTTL\<close> is the peer's own option (the constructor passes
  \<^verbatim>\<open>{disconnectionTTL: 300000, id: randomUUIDv7(), ...options}\<close> to the base class).
  The outbound buffer, the request table and the data store belong to the base class
  of another package; they are lists here, emptied where the code calls
  \<^verbatim>\<open>flush\<close>, \<^verbatim>\<open>cancelAll\<close> and \<^verbatim>\<open>clear\<close>.
\<close>

record starling =
  id :: string
  disconnectionTTL :: nat
  ws :: "nat option"
  lastConnected :: "nat option"
  disconnectedAt :: "nat option"
  disconnectionTimeout :: "nat option"
  reconnecting :: bool
  buffer :: "string list"
  requests :: "nat list"
  data :: "(string \<times> jsval) list"

text \<open>
  What lives outside the peer object: the timers \<^verbatim>\<open>setTimeout\<close> has started and that
  have neither fired nor been cleared (handle and delay in ms), the next fresh handle,
  the events emitted so far and the \<^verbatim>\<open>ws.close(1000, reason)\<close> calls made.
\<close>

record runtime =
  timers :: "(nat \<times> nat) list"
  nextTimer :: nat
  events :: "event list"
  wsCloses :: "(nat \<times> string) list"

definition emit :: "event \<Rightarrow> runtime \<Rightarrow> runtime" where
  "emit e rt = rt\<lparr>events := events rt @ [e]\<rparr>"

definition setTimeout :: "nat \<Rightarrow> runtime \<Rightarrow> nat \<times> runtime" where
  "setTimeout delay rt =
     (nextTimer rt, rt\<lparr>timers := timers rt @ [(nextTimer rt, delay)], nextTimer := Suc (nextTimer rt)\<rparr>)"

definition clearTimeout :: "nat \<Rightarrow> runtime \<Rightarrow> runtime" where
  "clearTimeout h rt = rt\<lparr>timers := filter (\<lambda>t. fst t \<noteq> h) (timers rt)\<rparr>"

text \<open>
  \<^verbatim>\<open>isConnected\<close> is a getter of the base class. The peer is connected exactly when it
  holds a transport handle (a null handle means disconnected).
\<close>

definition isConnected :: "starling \<Rightarrow> bool" where
  "isConnected s = (ws s \<noteq> None)"

text \<open>The constructor: bound to the handle it is given, not reconnecting.\<close>

definition new_Starling :: "string \<Rightarrow> nat \<Rightarrow> nat option \<Rightarrow> starling" where
  "new_Starling newId w ttlOption =
     \<lparr>id = newId,
      disconnectionTTL = (case ttlOption of None \<Rightarrow> 300000 | Some t \<Rightarrow> t),
      ws = Some w, lastConnected = None, disconnectedAt = None,
      disconnectionTimeout = None, reconnecting = False,
      buffer = [], requests = [], data = []\<rparr>"

definition new_runtime :: runtime where
  "new_runtime = \<lparr>timers = [], nextTimer = 0, events = [], wsCloses = []\<rparr>"

text \<open>
  \<^verbatim>\<open>close(reason)\<close>: cancel the requests, flush the buffer, clear the data, close the
  socket if there is one (an error of that call is swallowed), emit
  \<^verbatim>\<open>starling:closed\<close> with the reason.
\<close>

definition close :: "string \<Rightarrow> starling \<times> runtime \<Rightarrow> starling \<times> runtime" where
  "close reason sr =
     (let s = fst sr; rt = snd sr;
          s1 = s\<lparr>requests := [], buffer := [], data := []\<rparr>;
          rt1 = (case ws s1 of None \<Rightarrow> rt
                 | Some w \<Rightarrow> rt\<lparr>wsCloses := wsCloses rt @ [(w, reason)]\<rparr>)
      in (s1, emit (Event Server ''starling:closed'' reason) rt1))"

text \<open>
  The delay \<^verbatim>\<open>unlink\<close> hands to \<^verbatim>\<open>setTimeout\<close>:
  \<^verbatim>\<open>this._helios.options?.disconnectionTTL || 300000\<close>. The argument is the server's
  option (\<open>None\<close> when the options or the property are missing); \<^verbatim>\<open>||\<close> replaces
  every falsy value, so also \<open>0\<close>.
\<close>

definition evictionDelay :: "nat option \<Rightarrow> nat" where
  "evictionDelay heliosTTL =
     (case heliosTTL of None \<Rightarrow> 300000 | Some t \<Rightarrow> if t = 0 then 300000 else t)"

text \<open>
  \<^verbatim>\<open>unlink()\<close>: null the handle, stamp the disconnection time, emit the local event,
  start the eviction timer and keep its handle, emit the server event.
\<close>

definition unlink :: "nat option \<Rightarrow> nat \<Rightarrow> starling \<times> runtime \<Rightarrow> starling \<times> runtime" where
  "unlink heliosTTL now sr =
     (let s = fst sr; rt = snd sr;
          s1 = s\<lparr>ws := None, disconnectedAt := Some now\<rparr>;
          rt1 = emit (Event Local ''starling:disconnected'' []) rt;
          hr = setTimeout (evictionDelay heliosTTL) rt1;
          s2 = s1\<lparr>disconnectionTimeout := Some (fst hr)\<rparr>
      in (s2, emit (Event Server ''starling:disconnected'' (id s2)) (snd hr)))"

text \<open>
  The timer's callback: \<^verbatim>\<open>if (!this.isConnected) this.close('Connection timed out')\<close>.
  A timer that is not pending (cleared, or fired before) does nothing.
\<close>

definition fireTimer :: "nat \<Rightarrow> starling \<times> runtime \<Rightarrow> starling \<times> runtime" where
  "fireTimer h sr =
     (if h \<in> fst ` set (timers (snd sr)) then
        (let sr1 = (fst sr, clearTimeout h (snd sr))
         in if \<not> isConnected (fst sr1) then close ''Connection timed out'' sr1 else sr1)
      else sr)"

text \<open>
  \<^verbatim>\<open>link(ws)\<close>. The result is the error thrown to the caller, if any, and the state
  left behind. \<open>flush\<close> is what \<^verbatim>\<open>this._buffer.flush()\<close> does: \<open>None\<close> when it
  returns, the message of the error when it throws. A call that finds
  \<^verbatim>\<open>_reconnecting\<close> set emits the duplicate event and returns. Otherwise the body
  of the \<^verbatim>\<open>try\<close> runs up to the flush; if that throws, the \<^verbatim>\<open>catch\<close> emits
  \<^verbatim>\<open>starling:reconnect:failed\<close>, calls \<^verbatim>\<open>unlink\<close> and rethrows; \<^verbatim>\<open>finally\<close>
  resets the flag on both paths.
\<close>

definition link ::
  "nat option \<Rightarrow> nat \<Rightarrow> string option \<Rightarrow> nat \<Rightarrow> starling \<times> runtime \<Rightarrow> error option \<times> starling \<times> runtime"
where
  "link heliosTTL now flush w sr =
     (let s = fst sr; rt = snd sr in
      if reconnecting s then
        (None, s, emit (Event Server ''starling:reconnect:duplicate'' (id s)) rt)
      else
        (let s1 = s\<lparr>reconnecting := True, ws := Some w, lastConnected := Some now,
                    disconnectedAt := None\<rparr>;
             rt1 = (case disconnectionTimeout s1 of None \<Rightarrow> rt | Some h \<Rightarrow> clearTimeout h rt);
             s2 = s1\<lparr>disconnectionTimeout := None\<rparr>;
             rt2 = emit (Event Local ''starling:connected'' (id s2)) rt1
         in case flush of
              None \<Rightarrow>
                (None, s2\<lparr>buffer := [], reconnecting := False\<rparr>,
                 emit (Event Server ''starling:connected'' (id s2)) rt2)
            | Some m \<Rightarrow>
                (let sr3 = unlink heliosTTL now
                             (s2, emit (Event Server ''starling:reconnect:failed'' m) rt2)
                 in (Some (Error m), (fst sr3)\<lparr>reconnecting := False\<rparr>, snd sr3))))"

text \<open>
  The operations a peer goes through after its construction, in any order. The
  server's TTL option is fixed for a run; every operation carries the clock reading
  it sees.
\<close>

datatype lifecycle_op =
    Link nat nat "string option"
  | Unlink nat
  | Close string
  | Fire nat

fun apply_op :: "nat option \<Rightarrow> starling \<times> runtime \<Rightarrow> lifecycle_op \<Rightarrow> starling \<times> runtime" where
  "apply_op ttl sr (Link w now flush) = snd (link ttl now flush w sr)"
| "apply_op ttl sr (Unlink now) = unlink ttl now sr"
| "apply_op ttl sr (Close reason) = close reason sr"
| "apply_op ttl sr (Fire h) = fireTimer h sr"

definition run_ops :: "nat option \<Rightarrow> starling \<times> runtime \<Rightarrow> lifecycle_op list \<Rightarrow> starling \<times> runtime" where
  "run_ops ttl sr ops = foldl (apply_op ttl) sr ops"

section \<open>State recovery: \<^verbatim>\<open>StatesManager\<close>, registration and \<^verbatim>\<open>restore\<close>\<close>

text \<open>
  A provider's \<^verbatim>\<open>restore\<close> and \<^verbatim>\<open>validate\<close> are bound to the owning peer
  (\<^verbatim>\<open>restore.bind(this._starling)\<close>): \<open>'st\<close> is whatever they act on. A call of
  \<open>p_restore\<close> gives the state it leaves and, when it throws or rejects, the
  message of its error. (A provider's \<^verbatim>\<open>save\<close> is a promise whose settlement
  arrives later; it is part of the token generation model below.)
\<close>

record 'st provider =
  p_restore :: "jsval \<Rightarrow> 'st \<Rightarrow> 'st \<times> string option"
  p_validate :: "(jsval \<Rightarrow> bool) option"

record registration_options =
  required :: bool
  defaultState :: jsval

text \<open>
  \<^verbatim>\<open>_providers\<close> and \<^verbatim>\<open>_options\<close> are \<^verbatim>\<open>Map\<close>s: association lists in insertion
  order, read with \<open>map_of\<close>. \<open>owner\<close> is \<^verbatim>\<open>this._starling.id\<close>. The lock is a
  promise or null; a promise is named by the number of the \<^verbatim>\<open>generateToken\<close> call
  that created it. A generation id is the number of the call that drew it
  (\<^verbatim>\<open>crypto.randomUUID()\<close> gives every call an id of its own). The manager reaches
  the server both as \<^verbatim>\<open>this._starling._helios\<close> and as \<^verbatim>\<open>this._starling.helios\<close>
  (an accessor of the base class, which is not part of this repository); both are
  taken to be the one server object, whose events are the sink \<open>Server\<close>.
\<close>

record 'st StatesManager =
  owner :: string
  providers :: "(string \<times> 'st provider) list"
  options :: "(string \<times> registration_options) list"
  stateGenerationLock :: "nat option"
  currentGenerationId :: "nat option"

text \<open>
  \<^verbatim>\<open>register\<close>: a namespace already present is an error; otherwise both maps get
  the entry and \<^verbatim>\<open>state:registered\<close> is emitted.
\<close>

definition register ::
  "string \<Rightarrow> 'st provider \<Rightarrow> registration_options \<Rightarrow> 'st StatesManager
     \<Rightarrow> error + ('st StatesManager \<times> event)"
where
  "register namespace p opts m =
     (if namespace \<in> fst ` set (providers m)
      then Inl (Error (''State namespace '' @ namespace @ '' is already registered''))
      else Inr (m\<lparr>providers := providers m @ [(namespace, p)],
                   options := options m @ [(namespace, opts)]\<rparr>,
                Event Server ''state:registered'' namespace))"

text \<open>
  The constructor registers the two core namespaces, both required, without a
  default state, with a restore that does nothing.
\<close>

definition core_provider :: "'st provider" where
  "core_provider = \<lparr>p_restore = (\<lambda>v st. (st, None)), p_validate = None\<rparr>"

definition new_StatesManager :: "string \<Rightarrow> error + ('st StatesManager \<times> event list)" where
  "new_StatesManager i =
     (case register ''connection'' core_provider \<lparr>required = True, defaultState = JNull\<rparr>
             \<lparr>owner = i, providers = [], options = [], stateGenerationLock = None,
              currentGenerationId = None\<rparr> of
        Inl e \<Rightarrow> Inl e
      | Inr (m1, e1) \<Rightarrow>
          (case register ''info'' core_provider \<lparr>required = True, defaultState = JNull\<rparr> m1 of
             Inl e \<Rightarrow> Inl e
           | Inr (m2, e2) \<Rightarrow> Inr (m2, [e1, e2])))"

text \<open>
  What \<^verbatim>\<open>jwtVerify\<close> yields for a token that verifies: the claims \<^verbatim>\<open>restore\<close> and
  the registry read. \<open>p_states\<close> is what \<^verbatim>\<open>Object.entries(payload.states)\<close> lists,
  and \<open>None\<close> where that call throws (the claim is missing or null). The verifier
  itself is a parameter: a token gives an error or a payload.
\<close>

record payload =
  p_starlingId :: jsval
  p_states :: "(string \<times> jsval) list option"
  p_timestamp :: jsval

type_synonym verifier = "string \<Rightarrow> error + payload"

fun join :: "string \<Rightarrow> string list \<Rightarrow> string" where
  "join sep [] = []"
| "join sep [x] = x"
| "join sep (x # y # ys) = x @ sep @ join sep (y # ys)"

text \<open>
  The locals of \<^verbatim>\<open>restore\<close> and what it has done so far: the state the providers
  act on, \<^verbatim>\<open>errors\<close>, \<^verbatim>\<open>restoredStates\<close> (a \<^verbatim>\<open>Set\<close>, in insertion order), every
  \<^verbatim>\<open>provider.restore\<close> call made (namespace and argument), and the events emitted.
\<close>

record 'st restoring =
  r_app :: 'st
  r_errors :: "string list"
  r_restoredStates :: "string list"
  r_restoreCalls :: "(string \<times> jsval) list"
  r_emitted :: "event list"

definition set_add :: "string \<Rightarrow> string list \<Rightarrow> string list" where
  "set_add x xs = (if x \<in> set xs then xs else xs @ [x])"

text \<open>The \<^verbatim>\<open>catch\<close> of the first loop: an error for a required namespace, an event otherwise.\<close>

definition restoreFailed :: "'st StatesManager \<Rightarrow> string \<Rightarrow> string \<Rightarrow> 'st restoring \<Rightarrow> 'st restoring" where
  "restoreFailed m namespace msg acc =
     (if (case map_of (options m) namespace of None \<Rightarrow> False | Some opts \<Rightarrow> required opts)
      then acc\<lparr>r_errors := r_errors acc @
                 [''Failed to restore required state '' @ namespace @ '': '' @ msg]\<rparr>
      else acc\<lparr>r_emitted := r_emitted acc @
                 [Event Server ''starling:state:restore:failed'' namespace]\<rparr>)"

text \<open>One round of the first loop, over an entry of the token's states.\<close>

definition restoreEntry :: "'st StatesManager \<Rightarrow> 'st restoring \<Rightarrow> string \<times> jsval \<Rightarrow> 'st restoring" where
  "restoreEntry m acc entry =
     (let namespace = fst entry; state = snd entry in
      case map_of (providers m) namespace of
        None \<Rightarrow> acc
      | Some p \<Rightarrow>
          if (case p_validate p of None \<Rightarrow> False | Some f \<Rightarrow> \<not> f state)
          then restoreFailed m namespace ''State validation failed'' acc
          else
            (let res = p_restore p state (r_app acc);
                 acc1 = acc\<lparr>r_app := fst res,
                            r_restoreCalls := r_restoreCalls acc @ [(namespace, state)]\<rparr>
             in case snd res of
                  None \<Rightarrow>
                    acc1\<lparr>r_restoredStates := set_add namespace (r_restoredStates acc1),
                         r_emitted := r_emitted acc1 @
                           [Event Server ''starling:state:restored'' namespace]\<rparr>
                | Some msg \<Rightarrow> restoreFailed m namespace msg acc1))"

text \<open>
  One round of the second loop, over an entry of \<^verbatim>\<open>_options\<close>. A provider that is
  missing makes \<^verbatim>\<open>provider.restore\<close> a \<^verbatim>\<open>TypeError\<close> inside the \<^verbatim>\<open>try\<close>.
\<close>

definition restoreMissing ::
  "'st StatesManager \<Rightarrow> 'st restoring \<Rightarrow> string \<times> registration_options \<Rightarrow> 'st restoring"
where
  "restoreMissing m acc entry =
     (let namespace = fst entry; opts = snd entry in
      if required opts \<and> namespace \<notin> set (r_restoredStates acc) then
        (if truthy (defaultState opts) then
           (case map_of (providers m) namespace of
              None \<Rightarrow>
                acc\<lparr>r_errors := r_errors acc @
                  [''Failed to restore default state for '' @ namespace @ '': '' @
                   ''undefined is not an object'']\<rparr>
            | Some p \<Rightarrow>
                (let res = p_restore p (defaultState opts) (r_app acc);
                     acc1 = acc\<lparr>r_app := fst res,
                                r_restoreCalls := r_restoreCalls acc @
                                  [(namespace, defaultState opts)]\<rparr>
                 in case snd res of
                      None \<Rightarrow> acc1\<lparr>r_restoredStates := set_add namespace (r_restoredStates acc1)\<rparr>
                    | Some msg \<Rightarrow>
                        acc1\<lparr>r_errors := r_errors acc1 @
                          [''Failed to restore default state for '' @ namespace @ '': '' @ msg]\<rparr>))
         else acc\<lparr>r_errors := r_errors acc @
                [''Required state '' @ namespace @ '' missing from token'']\<rparr>)
      else acc)"

text \<open>
  The body of the \<^verbatim>\<open>try\<close> in \<^verbatim>\<open>restore\<close>: verify, compare the ids, run the two
  loops, throw the collected errors joined by a comma.
\<close>

definition restoreBody ::
  "verifier \<Rightarrow> 'st StatesManager \<Rightarrow> string \<Rightarrow> 'st restoring \<Rightarrow> error option \<times> 'st restoring"
where
  "restoreBody verify m token acc0 =
     (case verify token of
        Inl e \<Rightarrow> (Some e, acc0)
      | Inr pl \<Rightarrow>
          if p_starlingId pl \<noteq> JStr (owner m)
          then (Some (Error ''Token starling ID mismatch''), acc0)
          else
            (case p_states pl of
               None \<Rightarrow> (Some (TypeError ''Object.entries requires that input parameter not be null or undefined''), acc0)
             | Some entries \<Rightarrow>
                 (let acc1 = foldl (restoreEntry m) acc0 entries;
                      acc2 = foldl (restoreMissing m) acc1 (options m)
                  in if r_errors acc2 \<noteq> []
                     then (Some (Error (join '', '' (r_errors acc2))), acc2)
                     else (None, acc2))))"

text \<open>
  \<^verbatim>\<open>restore(token)\<close>: the outer \<^verbatim>\<open>catch\<close> emits \<^verbatim>\<open>state:restore:failed\<close> and
  rethrows. The first component is the error thrown to the caller, if any.
\<close>

definition restore ::
  "verifier \<Rightarrow> 'st StatesManager \<Rightarrow> string \<Rightarrow> 'st \<Rightarrow> error option \<times> 'st restoring"
where
  "restore verify m token st =
     (let res = restoreBody verify m token
                  \<lparr>r_app = st, r_errors = [], r_restoredStates = [], r_restoreCalls = [],
                   r_emitted = []\<rparr>
      in case fst res of
           None \<Rightarrow> res
         | Some e \<Rightarrow>
             (Some e, (snd res)\<lparr>r_emitted := r_emitted (snd res) @
                                 [Event Server ''state:restore:failed'' (message_of e)]\<rparr>))"

section \<open>State recovery: \<^verbatim>\<open>generateToken\<close>\<close>

text \<open>
  \<^verbatim>\<open>generateToken\<close> is asynchronous: between two \<^verbatim>\<open>await\<close>s a call runs alone,
  at an \<^verbatim>\<open>await\<close> other calls may run. The model is a transition system: every
  call of \<^verbatim>\<open>generateToken\<close> on one manager is a \<open>generation\<close> with its locals and
  the place where it is suspended; a step runs one call from one suspension to the
  next. Which call runs next, and when a provider's save or the signer settles, is
  chosen from outside.
\<close>

datatype settlement = Pending | Fulfilled jsval | Rejected string

text \<open>
  Where a call is: running (only inside a step, before its first \<^verbatim>\<open>await\<close>);
  suspended in the \<^verbatim>\<open>while\<close> loop, awaiting the lock promise of another call;
  suspended at \<^verbatim>\<open>await Promise.all(statePromises)\<close>; suspended at the \<^verbatim>\<open>await\<close>
  of the signature; or finished, because it has returned or thrown.
\<close>

datatype phase = Running | Waiting nat | Gathering | Signing | Finished

record token_options =
  expiresIn :: "string option"
  customClaims :: "(string \<times> jsval) list"

text \<open>
  The locals of one call. \<open>statePromises\<close> holds, for every provider whose save was
  called, the state of that promise. \<open>lockResolved\<close> says whether \<^verbatim>\<open>unlockFn()\<close>
  has run. \<open>outcome\<close> is what the call gave its caller: an error thrown or the token.
\<close>

record generation =
  generationId :: nat
  phase :: phase
  g_options :: token_options
  statePromises :: "(string \<times> settlement) list"
  states :: "(string \<times> jsval) list"
  g_errors :: "string list"
  g_timestamp :: nat
  lockResolved :: bool
  outcome :: "(error + string) option"

record 'st generating =
  manager :: "'st StatesManager"
  generations :: "generation list"
  g_events :: "event list"

text \<open>\<^verbatim>\<open>obj[key] = value\<close>, and the object literal \<^verbatim>\<open>{...base, ...extra}\<close>.\<close>

fun assign :: "string \<Rightarrow> jsval \<Rightarrow> (string \<times> jsval) list \<Rightarrow> (string \<times> jsval) list" where
  "assign k v [] = [(k, v)]"
| "assign k v (kv # kvs) = (if fst kv = k then (k, v) # kvs else kv # assign k v kvs)"

definition spread :: "(string \<times> jsval) list \<Rightarrow> (string \<times> jsval) list \<Rightarrow> (string \<times> jsval) list" where
  "spread base extra = foldl (\<lambda>obj kv. assign (fst kv) (snd kv) obj) base extra"

text \<open>
  The payload handed to \<^verbatim>\<open>SignJWT\<close>:
  \<^verbatim>\<open>{starlingId, states, timestamp, ...options.customClaims}\<close>, and the expiration
  \<^verbatim>\<open>options.expiresIn || '1h'\<close>. The signer is a parameter: claims and expiration
  give an error or the token.
\<close>

definition tokenClaims ::
  "string \<Rightarrow> (string \<times> jsval) list \<Rightarrow> nat \<Rightarrow> (string \<times> jsval) list \<Rightarrow> (string \<times> jsval) list"
where
  "tokenClaims sid sts ts custom =
     spread [(''starlingId'', JStr sid), (''states'', JObj sts), (''timestamp'', JNum (int ts))] custom"

definition expiration :: "token_options \<Rightarrow> string" where
  "expiration opts = (case expiresIn opts of None \<Rightarrow> ''1h'' | Some e \<Rightarrow> if e = [] then ''1h'' else e)"

type_synonym signer = "(string \<times> jsval) list \<Rightarrow> string \<Rightarrow> error + string"

text \<open>
  \<^verbatim>\<open>this._options.get(namespace).required\<close> in the \<^verbatim>\<open>catch\<close> of a save.
  \<^verbatim>\<open>register\<close> writes both maps, so a provider has options; the properties below
  assume it.
\<close>

definition requiredOf :: "'st StatesManager \<Rightarrow> string \<Rightarrow> bool" where
  "requiredOf m namespace =
     (case map_of (options m) namespace of None \<Rightarrow> False | Some opts \<Rightarrow> required opts)"

definition holding :: "generation \<Rightarrow> bool" where
  "holding g = (phase g = Gathering \<or> phase g = Signing)"

text \<open>
  From the end of the \<^verbatim>\<open>while\<close> loop to \<^verbatim>\<open>await Promise.all\<close>: create the lock
  promise, take the generation id, read the clock, call every provider's save.
\<close>

definition acquire :: "nat \<Rightarrow> nat \<Rightarrow> 'st generating \<Rightarrow> 'st generating" where
  "acquire i now w =
     w\<lparr>manager := (manager w)\<lparr>stateGenerationLock := Some i,
                               currentGenerationId := Some (generationId (generations w ! i))\<rparr>,
       generations := (generations w)
         [i := (generations w ! i)
                 \<lparr>phase := Gathering,
                  statePromises := map (\<lambda>p. (fst p, Pending)) (providers (manager w)),
                  states := [], g_errors := [], g_timestamp := now\<rparr>]\<rparr>"

text \<open>The test of the \<^verbatim>\<open>while\<close> loop: await the lock if there is one, go on otherwise.\<close>

definition enter :: "nat \<Rightarrow> nat \<Rightarrow> 'st generating \<Rightarrow> 'st generating" where
  "enter i now w =
     (case stateGenerationLock (manager w) of
        Some j \<Rightarrow> w\<lparr>generations := (generations w)[i := (generations w ! i)\<lparr>phase := Waiting j\<rparr>]\<rparr>
      | None \<Rightarrow> acquire i now w)"

text \<open>
  The \<^verbatim>\<open>finally\<close> block with the result \<open>res\<close> of the call: release the lock and
  clear the generation id if the id is still this call's, resolve the lock promise.
\<close>

definition finish :: "nat \<Rightarrow> error + string \<Rightarrow> 'st generating \<Rightarrow> 'st generating" where
  "finish i res w =
     w\<lparr>manager :=
         (if currentGenerationId (manager w) = Some (generationId (generations w ! i))
          then (manager w)\<lparr>stateGenerationLock := None, currentGenerationId := None\<rparr>
          else manager w),
       generations := (generations w)
         [i := (generations w ! i)\<lparr>phase := Finished, lockResolved := True, outcome := Some res\<rparr>]\<rparr>"

text \<open>
  A save promise settles and its \<^verbatim>\<open>then\<close> or \<^verbatim>\<open>catch\<close> runs: a fulfilled state
  is stored if the call is still the active generation; a rejection is an error for
  a required namespace and a \<^verbatim>\<open>state:save:failed\<close> event otherwise.
\<close>

definition settle :: "nat \<Rightarrow> string \<Rightarrow> settlement \<Rightarrow> 'st generating \<Rightarrow> 'st generating" where
  "settle i namespace s w =
     (let g = generations w ! i;
          g1 = g\<lparr>statePromises :=
                   map (\<lambda>p. if fst p = namespace then (namespace, s) else p) (statePromises g)\<rparr>
      in case s of
           Pending \<Rightarrow> w
         | Fulfilled v \<Rightarrow>
             w\<lparr>generations := (generations w)
                 [i := (if currentGenerationId (manager w) = Some (generationId g)
                        then g1\<lparr>states := assign namespace v (states g1)\<rparr> else g1)]\<rparr>
         | Rejected msg \<Rightarrow>
             (if requiredOf (manager w) namespace
              then w\<lparr>generations := (generations w)
                     [i := g1\<lparr>g_errors := g_errors g1 @
                               [''Failed to save required state '' @ namespace @ '': '' @ msg]\<rparr>]\<rparr>
              else w\<lparr>generations := (generations w)[i := g1],
                     g_events := g_events w @ [Event Server ''state:save:failed'' namespace]\<rparr>))"

text \<open>
  After \<^verbatim>\<open>await Promise.all\<close>: the superseded check, the collected errors, and the
  start of the signature.
\<close>

definition gathered :: "nat \<Rightarrow> 'st generating \<Rightarrow> 'st generating" where
  "gathered i w =
     (let g = generations w ! i in
      if currentGenerationId (manager w) \<noteq> Some (generationId g)
      then finish i (Inl (Error ''State generation was superseded by newer request'')) w
      else if g_errors g \<noteq> []
      then finish i (Inl (Error (''State token generation failed: '' @ join '', '' (g_errors g)))) w
      else w\<lparr>generations := (generations w)[i := g\<lparr>phase := Signing\<rparr>]\<rparr>)"

definition signed :: "signer \<Rightarrow> nat \<Rightarrow> 'st generating \<Rightarrow> 'st generating" where
  "signed sign i w =
     (let g = generations w ! i in
      finish i (sign (tokenClaims (owner (manager w)) (states g) (g_timestamp g)
                        (customClaims (g_options g)))
                  (expiration (g_options g))) w)"

text \<open>
  What can happen next. \<open>Calls\<close>: \<^verbatim>\<open>generateToken(options)\<close> is called and runs to
  its first \<^verbatim>\<open>await\<close>. \<open>Resumes i\<close>: call \<open>i\<close> comes back from awaiting a lock
  promise that has been resolved, and tests the loop again. \<open>Settles\<close>: a save
  promise of call \<open>i\<close> settles. \<open>Gathers i\<close>: call \<open>i\<close> comes back from
  \<^verbatim>\<open>Promise.all\<close>, all its saves being settled. \<open>Signs i\<close>: the signature of call
  \<open>i\<close> settles. An occurrence that is not possible in a state leaves it as it is.
  The clock reading is the one the call takes if it goes on to gather.
\<close>

datatype occurrence =
    Calls token_options nat
  | Resumes nat nat
  | Settles nat string settlement
  | Gathers nat
  | Signs nat

definition new_generation :: "nat \<Rightarrow> token_options \<Rightarrow> generation" where
  "new_generation i opts =
     \<lparr>generationId = i, phase = Running, g_options = opts, statePromises = [], states = [],
      g_errors = [], g_timestamp = 0, lockResolved = False, outcome = None\<rparr>"

fun step :: "signer \<Rightarrow> 'st generating \<Rightarrow> occurrence \<Rightarrow> 'st generating" where
  "step sign w (Calls opts now) =
     enter (length (generations w)) now
       (w\<lparr>generations := generations w @ [new_generation (length (generations w)) opts]\<rparr>)"
| "step sign w (Resumes i now) =
     (if i < length (generations w) \<and>
         (case phase (generations w ! i) of
            Waiting j \<Rightarrow> j < length (generations w) \<and> lockResolved (generations w ! j)
          | _ \<Rightarrow> False)
      then enter i now w else w)"
| "step sign w (Settles i namespace s) =
     (if i < length (generations w) \<and> phase (generations w ! i) = Gathering \<and>
         map_of (statePromises (generations w ! i)) namespace = Some Pending
      then settle i namespace s w else w)"
| "step sign w (Gathers i) =
     (if i < length (generations w) \<and> phase (generations w ! i) = Gathering \<and>
         Pending \<notin> snd ` set (statePromises (generations w ! i))
      then gathered i w else w)"
| "step sign w (Signs i) =
     (if i < length (generations w) \<and> phase (generations w ! i) = Signing
      then signed sign i w else w)"

text \<open>A manager on which no call is in flight, and a run from there.\<close>

definition idle :: "'st StatesManager \<Rightarrow> 'st generating" where
  "idle m = \<lparr>manager = m\<lparr>stateGenerationLock := None, currentGenerationId := None\<rparr>,
             generations = [], g_events = []\<rparr>"

definition run :: "signer \<Rightarrow> 'st StatesManager \<Rightarrow> occurrence list \<Rightarrow> 'st generating" where
  "run sign m occs = foldl (step sign) (idle m) occs"

section \<open>Invariants of token generation\<close>

















text \<open>
  Inputs for the examples: a signer that always signs, a call without options, and a
  manager with the required namespace \<open>connection\<close> and the optional namespace
  \<open>prefs\<close>.
\<close>

definition signing :: signer where
  "signing claims expires = Inr ''jwt''"

definition defaults :: token_options where
  "defaults = \<lparr>expiresIn = None, customClaims = []\<rparr>"

definition two_namespaces :: "unit StatesManager" where
  "two_namespaces =
     \<lparr>owner = ''p1'',
      providers = [(''connection'', core_provider), (''prefs'', core_provider)],
      options = [(''connection'', \<lparr>required = True, defaultState = JNull\<rparr>),
                 (''prefs'', \<lparr>required = False, defaultState = JNull\<rparr>)],
      stateGenerationLock = None, currentGenerationId = None\<rparr>"



text \<open>
  The state reached from \<open>st\<close> by running, in order, the \<^verbatim>\<open>provider.restore\<close> calls
  of a call log and nothing else.
\<close>

definition replay :: "'st StatesManager \<Rightarrow> 'st \<Rightarrow> (string \<times> jsval) list \<Rightarrow> 'st" where
  "replay m st calls =
     foldl (\<lambda>s c. case map_of (providers m) (fst c) of None \<Rightarrow> s
                   | Some p \<Rightarrow> fst (p_restore p (snd c) s)) st calls"

section \<open>Connection registry: \<^verbatim>\<open>managers/starlings.js\<close>\<close>

text \<open>
  Both maps hold references to the same \<^verbatim>\<open>Starling\<close> objects: the objects live in
  a store, by address, and \<^verbatim>\<open>_connections\<close> (keyed by socket) and
  \<^verbatim>\<open>_starlingsById\<close> (keyed by id) map to addresses. \<open>notified\<close> lists the
  \<^verbatim>\<open>notify\<close> calls made (peer id and topic).
\<close>

record registry =
  store :: "nat \<rightharpoonup> starling"
  nextAddr :: nat
  connections :: "nat \<rightharpoonup> nat"
  starlingsById :: "string \<rightharpoonup> nat"
  rt :: runtime
  notified :: "(string \<times> string) list"

definition new_StarlingsManager :: registry where
  "new_StarlingsManager =
     \<lparr>store = Map.empty, nextAddr = 0, connections = Map.empty, starlingsById = Map.empty,
      rt = new_runtime, notified = []\<rparr>"

text \<open>\<^verbatim>\<open>get(ws)\<close> reads \<^verbatim>\<open>_connections\<close>, \<^verbatim>\<open>getById(id)\<close> reads \<^verbatim>\<open>_starlingsById\<close>.\<close>

definition get :: "registry \<Rightarrow> nat \<Rightarrow> starling option" where
  "get reg w = (case connections reg w of None \<Rightarrow> None | Some a \<Rightarrow> store reg a)"

definition getById :: "registry \<Rightarrow> string \<Rightarrow> starling option" where
  "getById reg i = (case starlingsById reg i of None \<Rightarrow> None | Some a \<Rightarrow> store reg a)"

text \<open>
  \<^verbatim>\<open>_attemptRecovery(ws, token)\<close>. The first component is what the call does: throw
  (\<open>Inl\<close>), return null (\<open>Inr None\<close>) or return the peer found
  (\<open>Inr (Some address)\<close>); the second is the registry it leaves, also when it
  throws. \<^verbatim>\<open>_starlingsById.get(payload.starlingId)\<close> finds nothing when the claim is
  not a string. \<open>now\<close> and \<open>flush\<close> are what \<^verbatim>\<open>link\<close> sees.
\<close>

definition attemptRecovery ::
  "nat option \<Rightarrow> verifier \<Rightarrow> nat \<Rightarrow> string option \<Rightarrow> nat \<Rightarrow> string \<Rightarrow> registry
     \<Rightarrow> (error + nat option) \<times> registry"
where
  "attemptRecovery heliosTTL verify now flush w token reg =
     (case verify token of
        Inl e \<Rightarrow> (Inl e, reg)
      | Inr pl \<Rightarrow>
          (case (case p_starlingId pl of JStr i \<Rightarrow> starlingsById reg i | _ \<Rightarrow> None) of
             None \<Rightarrow> (Inr None, reg)
           | Some a \<Rightarrow>
               (case store reg a of
                  None \<Rightarrow> (Inr None, reg)
                | Some existingStarling \<Rightarrow>
                    (let conns1 = (case ws existingStarling of
                                     None \<Rightarrow> connections reg
                                   | Some old \<Rightarrow> (connections reg)(old := None));
                         res = link heliosTTL now flush w (existingStarling, rt reg);
                         reg1 = reg\<lparr>connections := conns1,
                                    store := (store reg)(a \<mapsto> fst (snd res)),
                                    rt := snd (snd res)\<rparr>
                     in case fst res of
                          Some e \<Rightarrow> (Inl e, reg1)
                        | None \<Rightarrow>
                            (Inr (Some a),
                             reg1\<lparr>connections := (connections reg1)(w \<mapsto> a),
                                  notified := notified reg1 @
                                    [(id existingStarling, ''connection:recovered'')],
                                  rt := emit (Event Server ''starling:recovered''
                                                (id existingStarling)) (rt reg1)\<rparr>)))))"

text \<open>
  \<^verbatim>\<open>_createNewStarling(ws, recoverToken)\<close>. \<open>newId\<close> is the id \<^verbatim>\<open>randomUUIDv7()\<close>
  gives the peer. The constructor builds the peer and its \<^verbatim>\<open>StatesManager\<close>; a
  token that is given (not null, not the empty string) is restored into the new peer
  inside a \<^verbatim>\<open>try\<close> whose \<^verbatim>\<open>catch\<close> emits \<^verbatim>\<open>starling:state:restore:failed\<close>; then
  the peer goes into both maps and \<^verbatim>\<open>starling:new\<close> is emitted.
\<close>

definition createNewStarling ::
  "verifier \<Rightarrow> string \<Rightarrow> nat \<Rightarrow> string option \<Rightarrow> registry \<Rightarrow> error option \<times> registry"
where
  "createNewStarling verify newId w recoverToken reg =
     (case new_StatesManager newId of
        Inl e \<Rightarrow> (Some e, reg)
      | Inr (m, registered) \<Rightarrow>
          (let s0 = new_Starling newId w None;
               rt0 = (rt reg)\<lparr>events := events (rt reg) @ registered\<rparr>;
               restored =
                 (case recoverToken of
                    None \<Rightarrow> (s0, rt0)
                  | Some token \<Rightarrow>
                      if token = [] then (s0, rt0)
                      else
                        (let r = restore verify m token s0;
                             rt1 = rt0\<lparr>events := events rt0 @ r_emitted (snd r)\<rparr>
                         in (r_app (snd r),
                             case fst r of
                               None \<Rightarrow> rt1
                             | Some e \<Rightarrow>
                                 emit (Event Server ''starling:state:restore:failed'' (message_of e)) rt1)));
               a = nextAddr reg
           in (None,
               reg\<lparr>store := (store reg)(a \<mapsto> fst restored),
                   nextAddr := Suc a,
                   connections := (connections reg)(w \<mapsto> a),
                   starlingsById := (starlingsById reg)(newId \<mapsto> a),
                   rt := emit (Event Server ''starling:new'' newId) (snd restored)\<rparr>)))"

text \<open>
  \<^verbatim>\<open>handleConnection(ws)\<close>. \<open>recover\<close> is \<^verbatim>\<open>ws.data?.recover\<close>. The \<^verbatim>\<open>try\<close> around
  the recovery attempt turns a thrown error into \<^verbatim>\<open>starling:recovery:failed\<close>;
  a null result emits nothing. The first component is the error thrown to the
  caller, if any.
\<close>

definition handleConnection ::
  "nat option \<Rightarrow> verifier \<Rightarrow> nat \<Rightarrow> string option \<Rightarrow> string \<Rightarrow> nat \<Rightarrow> string option \<Rightarrow> registry
     \<Rightarrow> error option \<times> registry"
where
  "handleConnection heliosTTL verify now flush newId w recover reg =
     (let attempt =
            (case recover of
               None \<Rightarrow> (True, reg)
             | Some token \<Rightarrow>
                 if token = [] then (True, reg)
                 else
                   (let r = attemptRecovery heliosTTL verify now flush w token reg in
                    case fst r of
                      Inl e \<Rightarrow>
                        (True, (snd r)\<lparr>rt := emit (Event Server ''starling:recovery:failed''
                                                     (message_of e)) (rt (snd r))\<rparr>)
                    | Inr None \<Rightarrow> (True, snd r)
                    | Inr (Some a) \<Rightarrow> (False, snd r)))
      in if fst attempt then createNewStarling verify newId w recover (snd attempt)
         else (None, snd attempt))"

text \<open>The events of a given name, and a verifier that accepts every token with one payload.\<close>

fun named :: "string \<Rightarrow> event \<Rightarrow> bool" where
  "named n (Event snk n' info) = (n = n')"

definition accepting :: "payload \<Rightarrow> verifier" where
  "accepting pl token = Inr pl"

definition rejecting :: "error \<Rightarrow> verifier" where
  "rejecting e token = Inl e"

text \<open>Whether a recovery attempt found and re-linked a peer.\<close>

fun recovered :: "error + nat option \<Rightarrow> bool" where
  "recovered (Inr (Some a)) = True"
| "recovered other = False"

text \<open>What the constructor of \<^verbatim>\<open>StatesManager\<close> builds, written out.\<close>

definition core_manager :: "string \<Rightarrow> 'st StatesManager" where
  "core_manager i =
     \<lparr>owner = i,
      providers = [(''connection'', core_provider), (''info'', core_provider)],
      options = [(''connection'', \<lparr>required = True, defaultState = JNull\<rparr>),
                 (''info'', \<lparr>required = True, defaultState = JNull\<rparr>)],
      stateGenerationLock = None, currentGenerationId = None\<rparr>"

definition core_registered :: "event list" where
  "core_registered =
     [Event Server ''state:registered'' ''connection'',
      Event Server ''state:registered'' ''info'']"

text \<open>
  Inputs for the examples: a payload naming a peer nobody knows; a provider that
  records what it is asked to restore; a manager of peer \<open>p1\<close> with the required
  namespace \<open>connection\<close> and the optional namespace \<open>prefs\<close>; a payload for \<open>p1\<close>
  that carries \<open>prefs\<close> only.
\<close>

definition unknownPeer :: payload where
  "unknownPeer = \<lparr>p_starlingId = JStr ''gone'', p_states = Some [], p_timestamp = JNum 1\<rparr>"

definition recording :: "string \<Rightarrow> (string \<times> jsval) list provider" where
  "recording namespace =
     \<lparr>p_restore = (\<lambda>v st. (st @ [(namespace, v)], None)), p_validate = None\<rparr>"

definition example_manager :: "(string \<times> jsval) list StatesManager" where
  "example_manager =
     \<lparr>owner = ''p1'',
      providers = [(''connection'', core_provider), (''prefs'', recording ''prefs'')],
      options = [(''connection'', \<lparr>required = True, defaultState = JNull\<rparr>),
                 (''prefs'', \<lparr>required = False, defaultState = JNull\<rparr>)],
      stateGenerationLock = None, currentGenerationId = None\<rparr>"


section \<open>Proxy routing: \<^verbatim>\<open>managers/proxy.js\<close>\<close>

text \<open>
  The \<^verbatim>\<open>_proxy\<close> object: \<^verbatim>\<open>_enrichMessage\<close> writes source, timestamp and route,
  \<^verbatim>\<open>_trackProxyRequest\<close> stores source and timestamp, \<^verbatim>\<open>handleProxyResponse\<close> adds
  \<^verbatim>\<open>completed: true\<close>. A field that is absent is \<open>None\<close> or \<open>False\<close>.
\<close>

record proxy_meta =
  sourceId :: string
  stamp :: nat
  route :: "string list option"
  completed :: bool

record message =
  mtype :: string
  requestId :: string
  content :: jsval
  proxy :: "proxy_meta option"

text \<open>
  What a rule's resolver may hand back and what the manager passes to
  \<^verbatim>\<open>starlings.has\<close> and \<^verbatim>\<open>starlings.get\<close>: a socket, an id string, or a peer
  object (by address).
\<close>

datatype jskey = Socket nat | Id string | Peer nat

text \<open>
  The active rule. The resolver is awaited: it throws or rejects (\<open>Inl\<close>), or gives
  a target, \<open>None\<close> standing for a falsy result.
\<close>

record proxy_rule =
  handler :: "message \<Rightarrow> starling \<Rightarrow> error + jskey option"
  allowRequests :: bool
  allowNotifications :: bool
  timeout :: nat

text \<open>
  \<^verbatim>\<open>_metrics\<close>. \<^verbatim>\<open>byType\<close> has the two keys the constructor gives it; an increment
  for another message type makes a \<^verbatim>\<open>NaN\<close> entry, which is not kept here.
\<close>

record metrics =
  totalProxied :: nat
  m_activeProxies :: int
  deniedProxies :: nat
  successfulProxies :: nat
  byType_request :: nat
  byType_notification :: nat
  latencies :: "int list"

text \<open>
  The manager: rule, metrics, the \<^verbatim>\<open>_activeProxies\<close> map (request id to source and
  timestamp), the events of its emitter, the forwarding timers that are pending
  (handle, the request id their callback closes over, delay), and the \<^verbatim>\<open>send\<close>
  calls made (receiving peer's id and message).
\<close>

record proxy_manager =
  rules :: "proxy_rule option"
  metrics :: metrics
  activeProxies :: "string \<rightharpoonup> proxy_meta"
  p_events :: "event list"
  p_timers :: "(nat \<times> string \<times> nat) list"
  p_nextTimer :: nat
  sent :: "(string \<times> message) list"




text \<open>
  \<^verbatim>\<open>this._helios.starlings.get(x)\<close> with any value \<open>x\<close>. \<^verbatim>\<open>get\<close> reads
  \<^verbatim>\<open>_connections\<close>, whose keys are the sockets \<^verbatim>\<open>handleConnection\<close> put there: an id
  string or a peer object is never one of them.
\<close>

definition starlings_get :: "registry \<Rightarrow> jskey \<Rightarrow> starling option" where
  "starlings_get reg key = (case key of Socket w \<Rightarrow> get reg w | Id i \<Rightarrow> None | Peer a \<Rightarrow> None)"

text \<open>\<^verbatim>\<open>_validateProxy\<close>: the error it throws, if any.\<close>

definition validateProxy :: "proxy_manager \<Rightarrow> message \<Rightarrow> error option" where
  "validateProxy pm msg =
     (case rules pm of
        None \<Rightarrow> Some (Error ''No proxy rules configured'')
      | Some r \<Rightarrow>
          if mtype msg = ''request'' \<and> \<not> allowRequests r
          then Some (Error ''Request proxying is disabled'')
          else if mtype msg = ''notification'' \<and> \<not> allowNotifications r
          then Some (Error ''Notification proxying is disabled'')
          else None)"

text \<open>
  \<^verbatim>\<open>_resolveTarget\<close>. \<^verbatim>\<open>StarlingsManager\<close> defines no \<^verbatim>\<open>has\<close>; what
  \<^verbatim>\<open>this._helios.starlings.has(target)\<close> does is the parameter \<open>has\<close>: it throws
  (\<open>Inl\<close>, as a call of a missing method does) or answers. The result is the throw
  or what \<^verbatim>\<open>starlings.get(target)\<close> returns, which may be undefined.
\<close>

definition resolveTarget ::
  "(jskey \<Rightarrow> error + bool) \<Rightarrow> registry \<Rightarrow> proxy_manager \<Rightarrow> message \<Rightarrow> starling
     \<Rightarrow> (error + starling option) \<times> proxy_manager"
where
  "resolveTarget has reg pm msg source =
     (let denied = (Inl (Error ''Proxy target not found or denied''),
                    pm\<lparr>metrics := (metrics pm)\<lparr>deniedProxies := Suc (deniedProxies (metrics pm))\<rparr>\<rparr>)
      in case rules pm of
           None \<Rightarrow> (Inl (TypeError ''null is not an object''), pm)
         | Some r \<Rightarrow>
             (case handler r msg source of
                Inl e \<Rightarrow> (Inl e, pm)
              | Inr None \<Rightarrow> denied
              | Inr (Some target) \<Rightarrow>
                  (case has target of
                     Inl e \<Rightarrow> (Inl e, pm)
                   | Inr False \<Rightarrow> denied
                   | Inr True \<Rightarrow> (Inr (starlings_get reg target), pm))))"

definition enrichMessage :: "message \<Rightarrow> starling \<Rightarrow> nat \<Rightarrow> message" where
  "enrichMessage msg source now =
     msg\<lparr>proxy := Some \<lparr>sourceId = id source, stamp = now, route = Some [id source],
                         completed = False\<rparr>\<rparr>"

text \<open>
  \<^verbatim>\<open>_trackProxyRequest\<close>: store the entry, then start a timer of
  \<^verbatim>\<open>this._rules.options.timeout\<close> ms (a \<^verbatim>\<open>TypeError\<close> if there is no rule). The
  timer is never cleared. The first component is the error thrown, if any.
\<close>

definition trackProxyRequest ::
  "proxy_manager \<Rightarrow> message \<Rightarrow> starling \<Rightarrow> nat \<Rightarrow> error option \<times> proxy_manager"
where
  "trackProxyRequest pm msg source now =
     (let pm1 = pm\<lparr>activeProxies := (activeProxies pm)(requestId msg \<mapsto>
                     \<lparr>sourceId = id source, stamp = now, route = None, completed = False\<rparr>)\<rparr>
      in case rules pm1 of
           None \<Rightarrow> (Some (TypeError ''null is not an object''), pm1)
         | Some rule \<Rightarrow>
             (None,
              pm1\<lparr>p_timers := p_timers pm1 @ [(p_nextTimer pm1, requestId msg, timeout rule)],
                  p_nextTimer := Suc (p_nextTimer pm1)\<rparr>))"

text \<open>
  \<^verbatim>\<open>_sendToTarget\<close>. \<open>send\<close> is the base class's \<^verbatim>\<open>send\<close>, awaited by the code: it
  gives \<open>None\<close> when the promise is fulfilled and the message of the error when it is
  rejected. A target that is undefined makes the call a \<^verbatim>\<open>TypeError\<close> inside the
  \<^verbatim>\<open>try\<close>; every error is rethrown behind \<^verbatim>\<open>Failed to send to target:\<close>.
\<close>

definition sendToTarget ::
  "(starling \<Rightarrow> message \<Rightarrow> string option) \<Rightarrow> proxy_manager \<Rightarrow> message \<Rightarrow> starling option
     \<Rightarrow> error option \<times> proxy_manager"
where
  "sendToTarget send pm msg target =
     (case target of
        None \<Rightarrow> (Some (Error (''Failed to send to target: '' @ ''undefined is not an object'')), pm)
      | Some t \<Rightarrow>
          (let pm1 = pm\<lparr>sent := sent pm @ [(id t, msg)]\<rparr> in
           case send t msg of
             Some m \<Rightarrow> (Some (Error (''Failed to send to target: '' @ m)), pm1)
           | None \<Rightarrow>
               (None,
                pm1\<lparr>metrics :=
                  (if mtype msg = ''request''
                   then (metrics pm1)\<lparr>byType_request := Suc (byType_request (metrics pm1))\<rparr>
                   else if mtype msg = ''notification''
                   then (metrics pm1)\<lparr>byType_notification := Suc (byType_notification (metrics pm1))\<rparr>
                   else metrics pm1)\<rparr>)))"

text \<open>\<^verbatim>\<open>_updateMetrics\<close>: push the latency, keep the last 100.\<close>

definition updateMetrics :: "proxy_manager \<Rightarrow> nat \<Rightarrow> nat \<Rightarrow> proxy_manager" where
  "updateMetrics pm startTime now =
     (let ls = latencies (metrics pm) @ [int now - int startTime]
      in pm\<lparr>metrics := (metrics pm)\<lparr>latencies := (if length ls > 100 then tl ls else ls)\<rparr>\<rparr>)"

text \<open>
  \<^verbatim>\<open>_handleProxyError\<close>: emit \<^verbatim>\<open>proxy:error\<close>; for a request, send the source a
  failure response (the promise of that \<^verbatim>\<open>send\<close> is not awaited).
\<close>

definition errorResponse :: "message \<Rightarrow> error \<Rightarrow> message" where
  "errorResponse msg e =
     \<lparr>mtype = ''response'', requestId = requestId msg,
      content = JObj [(''success'', JBool False),
                      (''error'', JObj [(''code'', JStr ''PROXY_ERROR''),
                                        (''message'', JStr (message_of e))])],
      proxy = None\<rparr>"

definition handleProxyError :: "proxy_manager \<Rightarrow> error \<Rightarrow> message \<Rightarrow> starling \<Rightarrow> proxy_manager" where
  "handleProxyError pm e msg source =
     (let pm1 = pm\<lparr>p_events := p_events pm @ [Event Proxy ''proxy:error'' (message_of e)]\<rparr>
      in if mtype msg = ''request''
         then pm1\<lparr>sent := sent pm1 @ [(id source, errorResponse msg e)]\<rparr>
         else pm1)"

text \<open>
  The body of the \<^verbatim>\<open>try\<close> in \<^verbatim>\<open>handleProxy\<close>: the error thrown, or \<^verbatim>\<open>true\<close>.
  \<open>now\<close> is the clock at the start of the call, \<open>later\<close> the clock when the
  metrics are updated.
\<close>

definition proxyBody ::
  "(jskey \<Rightarrow> error + bool) \<Rightarrow> (starling \<Rightarrow> message \<Rightarrow> string option) \<Rightarrow> registry \<Rightarrow> nat \<Rightarrow> nat
     \<Rightarrow> message \<Rightarrow> starling \<Rightarrow> proxy_manager \<Rightarrow> (error + bool) \<times> proxy_manager"
where
  "proxyBody has send reg now later msg source pm =
     (case validateProxy pm msg of
        Some e \<Rightarrow> (Inl e, pm)
      | None \<Rightarrow>
          (let r = resolveTarget has reg pm msg source in
           case fst r of
             Inl e \<Rightarrow> (Inl e, snd r)
           | Inr target \<Rightarrow>
               (let proxyMessage = enrichMessage msg source now;
                    tr = (if mtype msg = ''request''
                          then trackProxyRequest (snd r) proxyMessage source now
                          else (None, snd r))
                in case fst tr of
                     Some e \<Rightarrow> (Inl e, snd tr)
                   | None \<Rightarrow>
                       (let s = sendToTarget send (snd tr) proxyMessage target
                        in case fst s of
                             Some e \<Rightarrow> (Inl e, snd s)
                           | None \<Rightarrow> (Inr True, updateMetrics (snd s) now later)))))"

text \<open>
  \<^verbatim>\<open>handleProxy(message, source)\<close>: count the call, run the body, turn a thrown error
  into the error handling and \<^verbatim>\<open>false\<close>, and decrement the active counter in
  \<^verbatim>\<open>finally\<close>. The first component is what the caller gets: an error thrown
  (\<open>Inl\<close>) or the boolean returned.
\<close>

definition handleProxy ::
  "(jskey \<Rightarrow> error + bool) \<Rightarrow> (starling \<Rightarrow> message \<Rightarrow> string option) \<Rightarrow> registry \<Rightarrow> nat \<Rightarrow> nat
     \<Rightarrow> message \<Rightarrow> starling \<Rightarrow> proxy_manager \<Rightarrow> (error + bool) \<times> proxy_manager"
where
  "handleProxy has send reg now later msg source pm =
     (let pm0 = pm\<lparr>metrics := (metrics pm)\<lparr>totalProxied := Suc (totalProxied (metrics pm)),
                                            m_activeProxies := m_activeProxies (metrics pm) + 1\<rparr>\<rparr>;
          body = proxyBody has send reg now later msg source pm0;
          caught = (case fst body of
                      Inl e \<Rightarrow> (Inr False, handleProxyError (snd body) e msg source)
                    | Inr b \<Rightarrow> (Inr b, snd body))
      in (fst caught,
          (snd caught)\<lparr>metrics := (metrics (snd caught))
             \<lparr>m_activeProxies := m_activeProxies (metrics (snd caught)) - 1\<rparr>\<rparr>))"

text \<open>
  \<^verbatim>\<open>handleProxyResponse(response, source)\<close>: an unknown request id throws before the
  \<^verbatim>\<open>try\<close>; inside it the source peer is looked up with
  \<^verbatim>\<open>this._helios.starlings.get(proxyInfo.sourceId)\<close>, the response is sent and the
  success counted; \<^verbatim>\<open>finally\<close> deletes the entry. The first component is the error
  thrown, if any.
\<close>

definition handleProxyResponse ::
  "(starling \<Rightarrow> message \<Rightarrow> string option) \<Rightarrow> registry \<Rightarrow> message \<Rightarrow> starling \<Rightarrow> proxy_manager
     \<Rightarrow> error option \<times> proxy_manager"
where
  "handleProxyResponse send reg response source pm =
     (case activeProxies pm (requestId response) of
        None \<Rightarrow> (Some (Error ''Unknown proxy response''), pm)
      | Some proxyInfo \<Rightarrow>
          (let res =
                 (case starlings_get reg (Id (sourceId proxyInfo)) of
                    None \<Rightarrow> (Some (Error ''Source client disconnected''), pm)
                  | Some sourceClient \<Rightarrow>
                      (let out = response\<lparr>proxy := Some (proxyInfo\<lparr>completed := True\<rparr>)\<rparr>;
                           pm1 = pm\<lparr>sent := sent pm @ [(id sourceClient, out)]\<rparr>
                       in case send sourceClient out of
                            Some m \<Rightarrow> (Some (Error m), pm1)
                          | None \<Rightarrow>
                              (None,
                               pm1\<lparr>metrics := (metrics pm1)
                                 \<lparr>successfulProxies := Suc (successfulProxies (metrics pm1))\<rparr>\<rparr>)))
           in (fst res,
               (snd res)\<lparr>activeProxies := (activeProxies (snd res))(requestId response := None)\<rparr>)))"

text \<open>
  The callback of a forwarding timer: if the entry is still there,
  \<^verbatim>\<open>_handleProxyTimeout\<close> deletes it and emits \<^verbatim>\<open>proxy:timeout\<close>.
\<close>

definition fireProxyTimer :: "nat \<Rightarrow> proxy_manager \<Rightarrow> proxy_manager" where
  "fireProxyTimer h pm =
     (case map_of (p_timers pm) h of
        None \<Rightarrow> pm
      | Some (rid, delay) \<Rightarrow>
          (let pm1 = pm\<lparr>p_timers := filter (\<lambda>t. fst t \<noteq> h) (p_timers pm)\<rparr>
           in if activeProxies pm1 rid \<noteq> None
              then pm1\<lparr>activeProxies := (activeProxies pm1)(rid := None),
                       p_events := p_events pm1 @ [Event Proxy ''proxy:timeout'' rid]\<rparr>
              else pm1))"











text \<open>An event list without any \<^verbatim>\<open>starling:recovery:failed\<close>.\<close>

definition quiet :: "event list \<Rightarrow> bool" where
  "quiet evs = (filter (named ''starling:recovery:failed'') evs = [])"

section \<open>Properties of the peer lifecycle\<close>

lemma reconnecting_apply_op:
  "\<not> reconnecting (fst sr) \<Longrightarrow> \<not> reconnecting (fst (apply_op ttl sr op))"
  by (cases op)
     (auto simp: link_def unlink_def close_def fireTimer_def Let_def split: option.splits)

lemma reconnecting_run_ops:
  "\<not> reconnecting (fst sr) \<Longrightarrow> \<not> reconnecting (fst (run_ops ttl sr ops))"
  unfolding run_ops_def
  by (induction ops arbitrary: sr) (auto simp: reconnecting_apply_op)

lemma ws_unlink: "ws (fst (unlink ttl now sr)) = None"
  by (simp add: unlink_def Let_def)

lemma ws_link_ok:
  "\<not> reconnecting (fst sr) \<Longrightarrow> fst (link ttl now flush w sr) = None
     \<Longrightarrow> ws (fst (snd (link ttl now flush w sr))) = Some w"
  by (auto simp: link_def Let_def split: option.splits)

text \<open>
  C6. At most one transport handle is associated with a peer: the handle is the single
  field \<open>ws\<close>. In every state a peer reaches from its construction through any
  sequence of link, unlink, close and timer firings, the handle is null right after
  \<^verbatim>\<open>unlink()\<close>, and right after a \<^verbatim>\<open>link(h)\<close> that returns without an error it is
  \<open>h\<close>.
\<close>

theorem exclusive_transport:
  "ws (fst (unlink ttl now (run_ops ttl (new_Starling i w0 opt, new_runtime) ops))) = None \<and>
   (fst (link ttl now flush h (run_ops ttl (new_Starling i w0 opt, new_runtime) ops)) = None \<longrightarrow>
      ws (fst (snd (link ttl now flush h (run_ops ttl (new_Starling i w0 opt, new_runtime) ops)))) = Some h)"
proof -
  have "\<not> reconnecting (fst (new_Starling i w0 opt, new_runtime))"
    by (simp add: new_Starling_def)
  then have "\<not> reconnecting (fst (run_ops ttl (new_Starling i w0 opt, new_runtime) ops))"
    by (rule reconnecting_run_ops)
  then show ?thesis
    using ws_link_ok ws_unlink by blast
qed

theorem exclusive_transport_witness:
  "fst (link None 9 None 2 (run_ops None (new_Starling ''p'' 1 None, new_runtime) [Unlink 5])) = None \<and>
   ws (fst (snd (link None 9 None 2 (run_ops None (new_Starling ''p'' 1 None, new_runtime) [Unlink 5])))) = Some 2"
proof -
  have ok: "fst (link None 9 None 2 (run_ops None (new_Starling ''p'' 1 None, new_runtime) [Unlink 5])) = None"
    by (simp add: link_def run_ops_def unlink_def new_Starling_def Let_def)
  with exclusive_transport [of None 9 "''p''" 1 None "[Unlink 5]" None 2] show ?thesis
    by simp
qed





section \<open>Properties of \<^verbatim>\<open>restore\<close>\<close>

lemma restoreFailed_simps [simp]:
  "r_app (restoreFailed m ns msg acc) = r_app acc"
  "r_restoredStates (restoreFailed m ns msg acc) = r_restoredStates acc"
  "r_restoreCalls (restoreFailed m ns msg acc) = r_restoreCalls acc"
  by (simp_all add: restoreFailed_def)

lemma restoreFailed_errors: "set (r_errors acc) \<subseteq> set (r_errors (restoreFailed m ns msg acc))"
  by (auto simp: restoreFailed_def)







lemma replay_snoc:
  "replay m st (cs @ [c]) =
     (case map_of (providers m) (fst c) of None \<Rightarrow> replay m st cs
      | Some p \<Rightarrow> fst (p_restore p (snd c) (replay m st cs)))"
  by (simp add: replay_def split: option.splits)

lemma restoreEntry_replay:
  "r_app acc = replay m st (r_restoreCalls acc) \<Longrightarrow>
   r_app (restoreEntry m acc e) = replay m st (r_restoreCalls (restoreEntry m acc e))"
  by (auto simp: restoreEntry_def Let_def replay_snoc split: option.splits)

lemma restoreMissing_replay:
  "r_app acc = replay m st (r_restoreCalls acc) \<Longrightarrow>
   r_app (restoreMissing m acc e) = replay m st (r_restoreCalls (restoreMissing m acc e))"
  by (auto simp: restoreMissing_def Let_def replay_snoc split: option.splits)

lemma foldl_restoreEntry_replay:
  "r_app acc = replay m st (r_restoreCalls acc) \<Longrightarrow>
   r_app (foldl (restoreEntry m) acc es) = replay m st (r_restoreCalls (foldl (restoreEntry m) acc es))"
  by (induction es arbitrary: acc) (auto simp: restoreEntry_replay)

lemma foldl_restoreMissing_replay:
  "r_app acc = replay m st (r_restoreCalls acc) \<Longrightarrow>
   r_app (foldl (restoreMissing m) acc os) = replay m st (r_restoreCalls (foldl (restoreMissing m) acc os))"
  by (induction os arbitrary: acc) (auto simp: restoreMissing_replay)








lemma new_StatesManager_ok:
  "new_StatesManager i = Inr (core_manager i, core_registered)"
  by (simp add: new_StatesManager_def register_def core_manager_def core_registered_def)

lemma restore_replay:
  "r_app (snd (restore verify m token st)) =
     replay m st (r_restoreCalls (snd (restore verify m token st)))"
proof -
  let ?acc0 = "\<lparr>r_app = st, r_errors = [], r_restoredStates = [], r_restoreCalls = [], r_emitted = []\<rparr>"
  have a0: "r_app ?acc0 = replay m st (r_restoreCalls ?acc0)" by (simp add: replay_def)
  have "r_app (snd (restoreBody verify m token ?acc0)) =
          replay m st (r_restoreCalls (snd (restoreBody verify m token ?acc0)))"
    using a0 foldl_restoreMissing_replay [OF foldl_restoreEntry_replay [OF a0]]
    by (auto simp: restoreBody_def Let_def split: sum.splits option.splits)
  then show ?thesis
    by (auto simp: restore_def Let_def split: option.splits)
qed

lemma replay_core:
  "\<forall>p \<in> snd ` set (providers m). p = core_provider \<Longrightarrow> replay m st calls = st"
proof (induction calls rule: rev_induct)
  case Nil
  then show ?case by (simp add: replay_def)
next
  case (snoc c calls)
  have "\<And>p. map_of (providers m) (fst c) = Some p \<Longrightarrow> p = core_provider"
    using snoc.prems by (metis image_eqI map_of_SomeD snd_conv)
  then show ?case
    using snoc by (auto simp: replay_snoc core_provider_def split: option.splits)
qed

lemma restoreFailed_quiet: "quiet (r_emitted acc) \<Longrightarrow> quiet (r_emitted (restoreFailed m ns msg acc))"
  by (simp add: restoreFailed_def quiet_def)

lemma restoreEntry_quiet: "quiet (r_emitted acc) \<Longrightarrow> quiet (r_emitted (restoreEntry m acc e))"
  by (auto simp: restoreEntry_def Let_def restoreFailed_def quiet_def split: option.splits)

lemma restoreMissing_quiet: "quiet (r_emitted acc) \<Longrightarrow> quiet (r_emitted (restoreMissing m acc e))"
  by (auto simp: restoreMissing_def Let_def quiet_def split: option.splits)

lemma foldl_restoreEntry_quiet:
  "quiet (r_emitted acc) \<Longrightarrow> quiet (r_emitted (foldl (restoreEntry m) acc es))"
  by (induction es arbitrary: acc) (auto simp: restoreEntry_quiet)

lemma foldl_restoreMissing_quiet:
  "quiet (r_emitted acc) \<Longrightarrow> quiet (r_emitted (foldl (restoreMissing m) acc os))"
  by (induction os arbitrary: acc) (auto simp: restoreMissing_quiet)

lemma restore_quiet: "quiet (r_emitted (snd (restore verify m token st)))"
proof -
  let ?acc0 = "\<lparr>r_app = st, r_errors = [], r_restoredStates = [], r_restoreCalls = [], r_emitted = []\<rparr>"
  have a0: "quiet (r_emitted ?acc0)" by (simp add: quiet_def)
  have "quiet (r_emitted (snd (restoreBody verify m token ?acc0)))"
    using a0 foldl_restoreMissing_quiet [OF foldl_restoreEntry_quiet [OF a0]]
    by (auto simp: restoreBody_def Let_def split: sum.splits option.splits)
  then show ?thesis
    by (auto simp: restore_def Let_def quiet_def split: option.splits)
qed

text \<open>
  C8. When the token verifies but its \<^verbatim>\<open>starlingId\<close> is not the owning peer's id,
  \<^verbatim>\<open>restore\<close> throws \<^verbatim>\<open>Token starling ID mismatch\<close>, no provider's restore has been
  called, and the state the providers act on is what it was.
\<close>

theorem restore_id_mismatch:
  assumes "verify token = Inr pl" and "p_starlingId pl \<noteq> JStr (owner m)"
  shows "fst (restore verify m token st) = Some (Error ''Token starling ID mismatch'') \<and>
         r_restoreCalls (snd (restore verify m token st)) = [] \<and>
         r_app (snd (restore verify m token st)) = st"
  using assms by (simp add: restore_def restoreBody_def)

theorem restore_id_mismatch_witness:
  "accepting unknownPeer ''t'' = Inr unknownPeer \<and>
   p_starlingId unknownPeer \<noteq> JStr (owner example_manager) \<and>
   fst (restore (accepting unknownPeer) example_manager ''t'' []) =
     Some (Error ''Token starling ID mismatch'') \<and>
   r_restoreCalls (snd (restore (accepting unknownPeer) example_manager ''t'' [])) = [] \<and>
   r_app (snd (restore (accepting unknownPeer) example_manager ''t'' [])) = []"
proof -
  have h1: "accepting unknownPeer ''t'' = Inr unknownPeer"
    by (simp add: accepting_def)
  have h2: "p_starlingId unknownPeer \<noteq> JStr (owner example_manager)"
    by (simp add: unknownPeer_def example_manager_def)
  show ?thesis
    using restore_id_mismatch [where verify = "accepting unknownPeer" and token = "''t''"
        and pl = unknownPeer and m = example_manager and st = "[]"] h1 h2
    by simp
qed



section \<open>Properties of the connection registry\<close>

lemma createNewStarling_result:
  assumes "token \<noteq> []"
  shows "createNewStarling verify newId w (Some token) reg =
     (None,
      reg\<lparr>store := (store reg)(nextAddr reg \<mapsto> new_Starling newId w None),
          nextAddr := Suc (nextAddr reg),
          connections := (connections reg)(w \<mapsto> nextAddr reg),
          starlingsById := (starlingsById reg)(newId \<mapsto> nextAddr reg),
          rt := (rt reg)\<lparr>events := events (rt reg) @ core_registered @
                   r_emitted (snd (restore verify (core_manager newId) token (new_Starling newId w None))) @
                   (case fst (restore verify (core_manager newId) token (new_Starling newId w None)) of
                      None \<Rightarrow> []
                    | Some e \<Rightarrow> [Event Server ''starling:state:restore:failed'' (message_of e)]) @
                   [Event Server ''starling:new'' newId]\<rparr>\<rparr>)"
proof -
  have m: "\<forall>p \<in> snd ` set (providers (core_manager newId :: starling StatesManager)). p = core_provider"
    by (auto simp: core_manager_def)
  have app: "r_app (snd (restore verify (core_manager newId) token (new_Starling newId w None))) =
               new_Starling newId w None"
    using restore_replay [of verify "core_manager newId" token "new_Starling newId w None"]
      replay_core [OF m] by simp
  show ?thesis
    using assms app
    by (cases "fst (restore verify (core_manager newId) token (new_Starling newId w None))")
       (simp_all add: createNewStarling_def new_StatesManager_ok Let_def emit_def)
qed

text \<open>
  C7, as the code has it. A connection carries a recovery token and the attempt does
  not recover a peer. Then \<^verbatim>\<open>handleConnection\<close> does not throw; a new peer, bound to
  the socket, is in both maps; and the events added are, in this order: for an
  attempt that threw (verification or re-linking), \<^verbatim>\<open>starling:recovery:failed\<close> with
  its message, and nothing for an attempt that found no peer of that id; the two
  registrations of the new peer's core namespaces; what restoring the token into the
  new peer emitted, followed by \<^verbatim>\<open>starling:state:restore:failed\<close> when that restore
  threw; \<^verbatim>\<open>starling:new\<close>. In particular an unknown peer id adds no
  \<^verbatim>\<open>starling:recovery:failed\<close> event.
\<close>

theorem handleConnection_failed_recovery:
  assumes "token \<noteq> []"
    and "\<not> recovered (fst (attemptRecovery ttl verify now flush w token reg))"
  shows "fst (handleConnection ttl verify now flush newId w (Some token) reg) = None \<and>
     get (snd (handleConnection ttl verify now flush newId w (Some token) reg)) w =
       Some (new_Starling newId w None) \<and>
     getById (snd (handleConnection ttl verify now flush newId w (Some token) reg)) newId =
       Some (new_Starling newId w None) \<and>
     events (rt (snd (handleConnection ttl verify now flush newId w (Some token) reg))) =
       events (rt (snd (attemptRecovery ttl verify now flush w token reg))) @
       (case fst (attemptRecovery ttl verify now flush w token reg) of
          Inl e \<Rightarrow> [Event Server ''starling:recovery:failed'' (message_of e)]
        | Inr found \<Rightarrow> []) @
       core_registered @
       r_emitted (snd (restore verify (core_manager newId) token (new_Starling newId w None))) @
       (case fst (restore verify (core_manager newId) token (new_Starling newId w None)) of
          None \<Rightarrow> []
        | Some e \<Rightarrow> [Event Server ''starling:state:restore:failed'' (message_of e)]) @
       [Event Server ''starling:new'' newId] \<and>
     (fst (attemptRecovery ttl verify now flush w token reg) = Inr None \<longrightarrow>
        filter (named ''starling:recovery:failed'')
          (events (rt (snd (handleConnection ttl verify now flush newId w (Some token) reg)))) =
        filter (named ''starling:recovery:failed'') (events (rt reg)))"
proof -
  let ?r = "attemptRecovery ttl verify now flush w token reg"
  have unchanged: "fst ?r = Inr None \<Longrightarrow> snd ?r = reg"
    by (auto simp: attemptRecovery_def Let_def split: sum.splits option.splits jsval.splits)
  have q: "filter (named ''starling:recovery:failed'')
             (r_emitted (snd (restore verify (core_manager newId) token (new_Starling newId w None)))) = []"
    using restore_quiet [of verify "core_manager newId" token "new_Starling newId w None"]
    by (simp add: quiet_def)
  have reg_names: "filter (named ''starling:recovery:failed'') core_registered = []"
    by (simp add: core_registered_def)
  show ?thesis
  proof (cases "fst ?r")
    case (Inl e)
    then show ?thesis
      using assms(1)
      by (simp add: handleConnection_def Let_def createNewStarling_result [OF assms(1)]
            get_def getById_def emit_def)
  next
    case (Inr found)
    with assms(2) have none: "found = None" by (cases found) auto
    with Inr have r: "fst ?r = Inr None" by simp
    show ?thesis
      using assms(1) r unchanged [OF r] q reg_names
      by (simp add: handleConnection_def Let_def createNewStarling_result [OF assms(1)]
            get_def getById_def split: option.splits)
  qed
qed

theorem handleConnection_failed_recovery_witness:
  "''t'' \<noteq> [] \<and>
   \<not> recovered (fst (attemptRecovery None (rejecting (Error ''signature verification failed'')) 0 None 1 ''t''
                        new_StarlingsManager)) \<and>
   fst (handleConnection None (rejecting (Error ''signature verification failed'')) 0 None ''n1'' 1
          (Some ''t'') new_StarlingsManager) = None \<and>
   getById (snd (handleConnection None (rejecting (Error ''signature verification failed'')) 0 None ''n1'' 1
                   (Some ''t'') new_StarlingsManager)) ''n1'' = Some (new_Starling ''n1'' 1 None) \<and>
   events (rt (snd (handleConnection None (rejecting (Error ''signature verification failed'')) 0 None ''n1'' 1
                      (Some ''t'') new_StarlingsManager))) =
     [Event Server ''starling:recovery:failed'' ''signature verification failed'',
      Event Server ''state:registered'' ''connection'',
      Event Server ''state:registered'' ''info'',
      Event Server ''state:restore:failed'' ''signature verification failed'',
      Event Server ''starling:state:restore:failed'' ''signature verification failed'',
      Event Server ''starling:new'' ''n1'']"
proof -
  have h1: "''t'' \<noteq> []" by simp
  have h2: "\<not> recovered (fst (attemptRecovery None (rejecting (Error ''signature verification failed'')) 0
                                None 1 ''t'' new_StarlingsManager))"
    by (simp add: attemptRecovery_def rejecting_def)
  show ?thesis
    using handleConnection_failed_recovery [OF h1 h2, of "''n1''"] h1 h2
    by (simp add: attemptRecovery_def rejecting_def restore_def restoreBody_def
          new_StarlingsManager_def new_runtime_def core_registered_def)
qed

text \<open>
  C7 as stated fails for an unknown peer id: the token verifies, no peer has its id,
  and the events of the call are the two registrations, the two reports of the failed
  restoration and \<^verbatim>\<open>starling:new\<close>; the failed recovery itself is not reported.
\<close>

theorem recovery_unknown_peer_counterexample:
  "fst (attemptRecovery None (accepting unknownPeer) 0 None 1 ''t'' new_StarlingsManager) = Inr None \<and>
   events (rt (snd (handleConnection None (accepting unknownPeer) 0 None ''n1'' 1 (Some ''t'')
                      new_StarlingsManager))) =
     [Event Server ''state:registered'' ''connection'',
      Event Server ''state:registered'' ''info'',
      Event Server ''state:restore:failed'' ''Token starling ID mismatch'',
      Event Server ''starling:state:restore:failed'' ''Token starling ID mismatch'',
      Event Server ''starling:new'' ''n1'']"
  by (simp add: handleConnection_def attemptRecovery_def accepting_def unknownPeer_def
        new_StarlingsManager_def createNewStarling_def new_StatesManager_ok core_manager_def
        core_registered_def restore_def restoreBody_def Let_def emit_def new_runtime_def)

section \<open>Properties of the proxy manager\<close>

lemma resolveTarget_frame [simp]:
  "p_events (snd (resolveTarget has reg pm msg source)) = p_events pm"
  "m_activeProxies (metrics (snd (resolveTarget has reg pm msg source))) = m_activeProxies (metrics pm)"
  "totalProxied (metrics (snd (resolveTarget has reg pm msg source))) = totalProxied (metrics pm)"
  "rules (snd (resolveTarget has reg pm msg source)) = rules pm"
  by (simp_all add: resolveTarget_def Let_def split: option.splits sum.splits bool.splits)

lemma trackProxyRequest_frame [simp]:
  "p_events (snd (trackProxyRequest pm m source now)) = p_events pm"
  "metrics (snd (trackProxyRequest pm m source now)) = metrics pm"
  by (simp_all add: trackProxyRequest_def Let_def split: option.splits)

lemma trackProxyRequest_ruled:
  "rules pm = Some r \<Longrightarrow>
   trackProxyRequest pm m source now =
     (None,
      pm\<lparr>activeProxies := (activeProxies pm)(requestId m \<mapsto>
             \<lparr>sourceId = id source, stamp = now, route = None, completed = False\<rparr>),
         p_timers := p_timers pm @ [(p_nextTimer pm, requestId m, timeout r)],
         p_nextTimer := Suc (p_nextTimer pm)\<rparr>)"
  by (simp add: trackProxyRequest_def Let_def)

lemma sendToTarget_frame [simp]:
  "p_events (snd (sendToTarget send pm m target)) = p_events pm"
  "m_activeProxies (metrics (snd (sendToTarget send pm m target))) = m_activeProxies (metrics pm)"
  "totalProxied (metrics (snd (sendToTarget send pm m target))) = totalProxied (metrics pm)"
  "deniedProxies (metrics (snd (sendToTarget send pm m target))) = deniedProxies (metrics pm)"
  by (simp_all add: sendToTarget_def Let_def split: option.splits)

lemma updateMetrics_frame [simp]:
  "p_events (updateMetrics pm a b) = p_events pm"
  "m_activeProxies (metrics (updateMetrics pm a b)) = m_activeProxies (metrics pm)"
  "totalProxied (metrics (updateMetrics pm a b)) = totalProxied (metrics pm)"
  "deniedProxies (metrics (updateMetrics pm a b)) = deniedProxies (metrics pm)"
  by (simp_all add: updateMetrics_def Let_def)



lemma handleProxyError_frame [simp]:
  "metrics (handleProxyError pm e msg source) = metrics pm"
  "p_events (handleProxyError pm e msg source) = p_events pm @ [Event Proxy ''proxy:error'' (message_of e)]"
  by (simp_all add: handleProxyError_def Let_def)





lemma validateProxy_counted [simp]:
  "validateProxy (pm\<lparr>metrics := x\<rparr>) msg = validateProxy pm msg"
  by (simp add: validateProxy_def)




lemma resolveTarget_denied:
  "rules pm = Some r \<Longrightarrow>
   handler r msg source = Inr None \<or> (handler r msg source = Inr (Some t) \<and> has t = Inr False) \<Longrightarrow>
   fst (resolveTarget has reg pm msg source) = Inl (Error ''Proxy target not found or denied'') \<and>
   deniedProxies (metrics (snd (resolveTarget has reg pm msg source))) = Suc (deniedProxies (metrics pm))"
  by (auto simp: resolveTarget_def Let_def)

lemma handleProxy_denied:
  assumes "rules pm = Some r" and "validateProxy pm msg = None"
    and "handler r msg source = Inr None \<or> (handler r msg source = Inr (Some t) \<and> has t = Inr False)"
  shows "deniedProxies (metrics (snd (handleProxy has send reg now later msg source pm))) =
     Suc (deniedProxies (metrics pm))"
proof -
  let ?pm0 = "pm\<lparr>metrics := (metrics pm)\<lparr>totalProxied := Suc (totalProxied (metrics pm)),
                                      m_activeProxies := m_activeProxies (metrics pm) + 1\<rparr>\<rparr>"
  have "rules ?pm0 = Some r" using assms(1) by simp
  from resolveTarget_denied [where has = has and t = t and reg = reg, OF this assms(3)]
  show ?thesis
    using assms(2) by (simp add: handleProxy_def proxyBody_def Let_def)
qed






lemma starlings_get_Id: "starlings_get reg (Id i) = None"
  by (simp add: starlings_get_def)

lemma handleProxyResponse_tracked:
  "activeProxies pm (requestId response) = Some info \<Longrightarrow>
   handleProxyResponse send reg response source pm =
     (Some (Error ''Source client disconnected''),
      pm\<lparr>activeProxies := (activeProxies pm)(requestId response := None)\<rparr>)"
  by (simp add: handleProxyResponse_def starlings_get_Id Let_def)

lemma successful_frame [simp]:
  "successfulProxies (metrics (snd (resolveTarget has reg pm msg source))) = successfulProxies (metrics pm)"
  "successfulProxies (metrics (snd (sendToTarget send pm m target))) = successfulProxies (metrics pm)"
  "successfulProxies (metrics (updateMetrics pm a b)) = successfulProxies (metrics pm)"
  by (simp_all add: resolveTarget_def sendToTarget_def updateMetrics_def Let_def
      split: option.splits sum.splits bool.splits)



lemma active_frame [simp]:
  "activeProxies (snd (sendToTarget send pm m target)) = activeProxies pm"
  "activeProxies (updateMetrics pm a b) = activeProxies pm"
  "activeProxies (handleProxyError pm e msg source) = activeProxies pm"
  "activeProxies (snd (resolveTarget has reg pm msg source)) = activeProxies pm"
  by (simp_all add: sendToTarget_def updateMetrics_def handleProxyError_def resolveTarget_def Let_def
      split: option.splits sum.splits bool.splits)



lemma handleProxyResponse_unknown:
  "activeProxies pm (requestId response) = None \<Longrightarrow>
   handleProxyResponse send reg response source pm = (Some (Error ''Unknown proxy response''), pm)"
  by (simp add: handleProxyResponse_def)

lemma handleProxyResponse_twice:
  "fst (handleProxyResponse send reg response source'
         (snd (handleProxyResponse send reg response source pm))) =
     Some (Error ''Unknown proxy response'')"
  by (cases "activeProxies pm (requestId response)")
     (simp_all add: handleProxyResponse_unknown handleProxyResponse_tracked)

lemma fireProxyTimer_once:
  assumes "p_nextTimer pm \<notin> fst ` set (p_timers pm)" and rule: "rules pm = Some r"
  shows "activeProxies (fireProxyTimer (p_nextTimer pm) (snd (trackProxyRequest pm msg source now)))
           (requestId msg) = None \<and>
         p_events (fireProxyTimer (p_nextTimer pm) (snd (trackProxyRequest pm msg source now))) =
           p_events pm @ [Event Proxy ''proxy:timeout'' (requestId msg)] \<and>
         fireProxyTimer (p_nextTimer pm)
           (fireProxyTimer (p_nextTimer pm) (snd (trackProxyRequest pm msg source now))) =
         fireProxyTimer (p_nextTimer pm) (snd (trackProxyRequest pm msg source now))"
proof -
  have none: "map_of (p_timers pm) (p_nextTimer pm) = None"
    using assms(1) by (simp add: map_of_eq_None_iff)
  have keep: "filter (\<lambda>t. fst t \<noteq> p_nextTimer pm) (p_timers pm) = p_timers pm"
    using assms(1) by (intro filter_True) force
  have one: "fireProxyTimer (p_nextTimer pm) (snd (trackProxyRequest pm msg source now)) =
          pm\<lparr>activeProxies := (activeProxies pm)(requestId msg := None),
             p_timers := p_timers pm, p_nextTimer := Suc (p_nextTimer pm),
             p_events := p_events pm @ [Event Proxy ''proxy:timeout'' (requestId msg)]\<rparr>"
    by (simp add: fireProxyTimer_def trackProxyRequest_ruled [OF rule] map_add_def none keep Let_def)
  show ?thesis
    by (simp add: one) (simp add: fireProxyTimer_def none)
qed




section \<open>Properties of token generation\<close>






















lemma settle_keys: "map fst (map (\<lambda>p. if fst p = ns then (ns, s) else p) sp) = map fst sp"
  by (induction sp) auto
































lemmas run_simps = run_def idle_def enter_def acquire_def settle_def gathered_def signed_def
  finish_def new_generation_def two_namespaces_def requiredOf_def holding_def Let_def

lemma two_calls:
  "map phase (generations (run signing two_namespaces [Calls defaults 7, Calls defaults 8])) =
     [Gathering, Waiting 0]"
  by (simp add: run_simps)










end
